theory Spec2Isabelle
  imports Complex_Main "HOL-Library.Log_Nat"
begin

section \<open>The LLM layer of BERI (src/beri/src/lib/llm.ts)\<close>

text \<open>
  The module keeps one variable, \<open>engine\<close>, and talks to three things it does not own:
  the browser host (\<open>navigator.gpu\<close>, \<open>Worker\<close>, \<open>console\<close>), the WebLLM runtime
  (\<open>CreateWebWorkerMLCEngine\<close>, \<open>MLCEngine\<close>, \<open>reload\<close>, \<open>chat.completions.create\<close>,
  \<open>resetChat\<close>) and the callbacks of its caller (\<open>onProgress\<close>, \<open>onToken\<close>).

  Every exported function is modelled as a function from the value of \<open>engine\<close> before the
  call to a run: how the returned promise settles, the value of \<open>engine\<close> afterwards, and
  the calls the function made to the outside, in order. What the outside answers is an
  argument of the model (a script), so a rejected promise or a throwing stream is an
  input like any other. Calls are taken one at a time: overlapping calls of the exported
  functions are not modelled. A caller's callback is a sink: it is called, and returns.
\<close>

subsection \<open>Values\<close>

text \<open>
  What a \<open>throw\<close> or a rejected promise carries: \<open>Error msg\<close> is the \<open>new Error(msg)\<close> that
  the module creates itself, \<open>ReferenceError\<close> is what reading an undeclared global
  throws, \<open>RuntimeFailure f\<close> is whatever the host or the runtime threw; a script names
  such a failure \<open>f\<close>, and the module passes it on as it is.
\<close>

type_synonym failure = string

datatype thrown = Error string | ReferenceError string | RuntimeFailure failure

subsection \<open>JavaScript numbers\<close>

text \<open>
  A number is a double: a finite value (\<open>Num 0\<close> is +0), -0, NaN or an infinity. The
  arithmetic of line 37 is double arithmetic: \<open>report.progress * 100\<close> is the exact product
  rounded to the nearest double, ties to the even significand, and \<open>Math.round\<close> works
  on that double.
\<close>

datatype number = Num rat | NegZero | NaN | Infinity | NegInfinity

text \<open>For \<open>x > 0\<close>, the exponent of \<open>x\<close>: \<open>2 powi ilog2 x \<le> x < 2 powi (ilog2 x + 1)\<close>.\<close>

definition ilog2 :: "rat \<Rightarrow> int" where
  "ilog2 x = (if 1 \<le> x then bitlen \<lfloor>x\<rfloor> - 1 else - bitlen (\<lceil>1 / x\<rceil> - 1))"

text \<open>The nearest integer, a half going to the even neighbour.\<close>

definition round_even :: "rat \<Rightarrow> int" where
  "round_even x =
     (let f = \<lfloor>x\<rfloor>; d = x - of_int f
      in if d < 1 / 2 then f else if 1 / 2 < d then f + 1 else if even f then f else f + 1)"

text \<open>For \<open>x > 0\<close>, \<open>x\<close> rounded to 53 significant bits, the unit in the last place not below
  \<open>2 powi (- 1074)\<close> (the subnormal range); and the double that an exact result \<open>x\<close>
  becomes, with overflow to an infinity and underflow to a zero of the same sign.\<close>

definition nearest :: "rat \<Rightarrow> rat" where
  "nearest x =
     (let e = max (ilog2 x - 52) (- 1074)
      in of_int (round_even (x / 2 powi e)) * 2 powi e)"

definition to_double :: "rat \<Rightarrow> number" where
  "to_double x =
     (if x = 0 then Num 0
      else let v = nearest \<bar>x\<bar>
           in if 2 ^ 1024 \<le> v then (if 0 < x then Infinity else NegInfinity)
              else if v = 0 then (if 0 < x then Num 0 else NegZero)
              else Num (if 0 < x then v else - v))"

text \<open>\<open>n * 100\<close>.\<close>

definition times100 :: "number \<Rightarrow> number" where
  "times100 n =
     (case n of
        Num x \<Rightarrow> to_double (x * 100)
      | NegZero \<Rightarrow> NegZero
      | NaN \<Rightarrow> NaN
      | Infinity \<Rightarrow> Infinity
      | NegInfinity \<Rightarrow> NegInfinity)"

text \<open>\<open>Math.round\<close>: the nearest integer, a half rounded up; -0 for -0 and for the values
  from -0.5 up to 0; NaN and the infinities are returned as they are.\<close>

definition Math_round :: "number \<Rightarrow> number" where
  "Math_round n =
     (case n of
        Num y \<Rightarrow> (let r = \<lfloor>y + 1 / 2\<rfloor> in if r = 0 \<and> y < 0 then NegZero else Num (of_int r))
      | NegZero \<Rightarrow> NegZero
      | NaN \<Rightarrow> NaN
      | Infinity \<Rightarrow> Infinity
      | NegInfinity \<Rightarrow> NegInfinity)"

text \<open>\<open>a <= b\<close> on numbers: false when either is NaN, and -0 equals +0.\<close>

fun number_le :: "number \<Rightarrow> number \<Rightarrow> bool" where
  "number_le NaN _ = False"
| "number_le _ NaN = False"
| "number_le NegInfinity _ = True"
| "number_le _ Infinity = True"
| "number_le Infinity _ = False"
| "number_le _ NegInfinity = False"
| "number_le (Num x) (Num y) = (x \<le> y)"
| "number_le (Num x) NegZero = (x \<le> 0)"
| "number_le NegZero (Num y) = (0 \<le> y)"
| "number_le NegZero NegZero = True"

text \<open>The value of a number that lies between 0 and 1.\<close>

fun fraction :: "number \<Rightarrow> rat option" where
  "fraction (Num p) = (if 0 \<le> p \<and> p \<le> 1 then Some p else None)"
| "fraction NegZero = Some 0"
| "fraction _ = None"

text \<open>The imports from \<open>./constants\<close>; the file is not part of the sources, so they are
  parameters.\<close>

record constants =
  LLM_MODEL :: string
  MAX_TOKENS :: nat
  TEMPERATURE :: rat
  CONTEXT_WINDOW_SIZE :: nat

record ChatCompletionMessageParam =
  role :: string
  content :: string

record ChatCompletionRequest =
  messages :: "ChatCompletionMessageParam list"
  max_tokens :: nat
  temperature :: rat
  stream :: bool

text \<open>A streamed chunk, as far as line 124 reads it: \<open>chunk.choices[0]?.delta?.content\<close>.
  A missing \<open>delta\<close> and a \<open>null\<close> or missing \<open>content\<close> are \<open>None\<close>.\<close>

record Delta =
  delta_content :: "string option"

record Choice =
  delta :: "Delta option"

record ChatCompletionChunk =
  choices :: "Choice list"

text \<open>\<open>InitProgressReport\<close>: the fraction loaded and a status text. (Field \<open>text\<close> of the
  source is \<open>report_text\<close> here.)\<close>

record InitProgressReport =
  progress :: number
  report_text :: string

text \<open>The second and third argument of engine creation. The configuration's
  \<open>initProgressCallback\<close> is always the adapter defined in \<open>initLLM\<close>; the reports the
  runtime delivers go through it.\<close>

record MLCEngineConfig =
  logLevel :: string

record ChatOptions =
  context_window_size :: nat

subsection \<open>The runtime's engine object\<close>

text \<open>
  Modelled from the spec: the WebLLM runtime is a dependency, its code is not among the
  sources. An engine is offloaded to a worker or runs in-process, has a model loaded or
  not, and holds the conversation state that \<open>resetChat\<close> clears ("clears the engine's
  internal conversation state"). A request that the runtime accepts adds its messages to
  that state.
\<close>

datatype engine_kind = WebWorkerEngine | MainThreadEngine

record engine =
  kind :: engine_kind
  loaded :: "(string \<times> ChatOptions) option"
  conversation :: "ChatCompletionMessageParam list"

definition submit :: "ChatCompletionRequest \<Rightarrow> engine \<Rightarrow> engine" where
  "submit req e = e\<lparr>conversation := conversation e @ messages req\<rparr>"

definition cleared :: "engine \<Rightarrow> engine" where
  "cleared e = e\<lparr>conversation := []\<rparr>"

subsection \<open>Effects and runs\<close>

datatype callback = Callback

datatype event =
    OnProgress number string
  | NewWorker string string
  | CreateWebWorkerMLCEngine string MLCEngineConfig ChatOptions
  | NewMLCEngine MLCEngineConfig
  | Reload string ChatOptions
  | ConsoleLog string
  | ConsoleWarn string thrown
  | ChatCompletionsCreate ChatCompletionRequest
  | OnToken string
  | EngineResetChat

record 'a run =
  outcome :: "thrown + 'a"
  handle :: "engine option"
  effects :: "event list"

text \<open>\<open>onProgress?.(percent, message)\<close> and \<open>onToken?.(token)\<close>: nothing happens when the
  callback was not supplied.\<close>

definition call_onProgress :: "callback option \<Rightarrow> number \<Rightarrow> string \<Rightarrow> event list" where
  "call_onProgress onProgress percent message =
     (case onProgress of None \<Rightarrow> [] | Some _ \<Rightarrow> [OnProgress percent message])"

definition call_onToken :: "callback option \<Rightarrow> string \<Rightarrow> event list" where
  "call_onToken onToken token =
     (case onToken of None \<Rightarrow> [] | Some _ \<Rightarrow> [OnToken token])"

subsection \<open>checkWebGPU (lines 16-27)\<close>

text \<open>The host. The global \<open>navigator\<close> is declared in a browser; on a host without it
  (\<open>None\<close>) the read on line 17 throws a \<open>ReferenceError\<close>. Reading \<open>navigator.gpu\<close> throws,
  or gives nothing, or gives an object whose \<open>requestAdapter()\<close> throws (or rejects),
  resolves to \<open>null\<close>, or resolves to an adapter. The read on line 17 is outside the
  \<open>try\<close>; the request on line 22 is inside.\<close>

datatype GPUAdapter = GPUAdapter

record GPU =
  requestAdapter :: "failure + GPUAdapter option"

record Navigator =
  gpu :: "failure + GPU option"

record Host =
  navigator :: "Navigator option"

definition checkWebGPU :: "Host \<Rightarrow> thrown + bool" where
  "checkWebGPU host =
     (case navigator host of
        None \<Rightarrow> Inl (ReferenceError ''navigator is not defined'')
      | Some nav \<Rightarrow>
          (case gpu nav of
             Inl f \<Rightarrow> Inl (RuntimeFailure f)
           | Inr None \<Rightarrow> Inr False
           | Inr (Some g) \<Rightarrow>
               (case requestAdapter g of
                  Inr adapter \<Rightarrow> Inr (adapter \<noteq> None)
                | Inl _ \<Rightarrow> Inr False)))"

subsection \<open>initLLM (lines 33-78)\<close>

text \<open>The adapter of lines 36-39.\<close>

definition initProgressCallback :: "callback option \<Rightarrow> InitProgressReport \<Rightarrow> event list" where
  "initProgressCallback onProgress report =
     (let percent = Math_round (times100 (progress report))
      in call_onProgress onProgress percent (report_text report))"

text \<open>What the outside does during one \<open>initLLM\<close>: whether \<open>new Worker\<close> throws, which
  reports \<open>CreateWebWorkerMLCEngine\<close> delivers before it resolves or rejects, whether
  \<open>new MLCEngine\<close> throws, and which reports \<open>reload\<close> delivers before it resolves or
  rejects. \<open>None\<close> is success.\<close>

record init_script =
  worker_ctor :: "failure option"
  worker_reports :: "InitProgressReport list"
  worker_create :: "failure option"
  engine_ctor :: "failure option"
  reload_reports :: "InitProgressReport list"
  reload_result :: "failure option"

definition engine_config :: MLCEngineConfig where
  "engine_config = \<lparr>logLevel = ''SILENT''\<rparr>"

definition chat_options :: "constants \<Rightarrow> ChatOptions" where
  "chat_options K = \<lparr>context_window_size = CONTEXT_WINDOW_SIZE K\<rparr>"

text \<open>The \<open>try\<close> block, lines 42-60: the engine it assigns, or what it threw, with its
  effects.\<close>

definition try_worker ::
  "constants \<Rightarrow> init_script \<Rightarrow> callback option \<Rightarrow> (thrown + engine) \<times> event list" where
  "try_worker K w onProgress =
     (let t1 = [NewWorker ''./llm.worker.ts'' ''module''] in
      case worker_ctor w of
        Some f \<Rightarrow> (Inl (RuntimeFailure f), t1)
      | None \<Rightarrow>
          (let t2 = t1 @ [CreateWebWorkerMLCEngine (LLM_MODEL K) engine_config (chat_options K)]
                       @ concat (map (initProgressCallback onProgress) (worker_reports w)) in
           case worker_create w of
             Some f \<Rightarrow> (Inl (RuntimeFailure f), t2)
           | None \<Rightarrow>
               (Inr \<lparr>kind = WebWorkerEngine,
                     loaded = Some (LLM_MODEL K, chat_options K),
                     conversation = []\<rparr>,
                t2 @ [ConsoleLog ''LLM initialised with Web Worker''])))"

text \<open>The \<open>catch\<close> block, lines 61-75. The new engine is assigned to \<open>engine\<close> before
  \<open>reload\<close> is awaited.\<close>

definition fallback ::
  "constants \<Rightarrow> init_script \<Rightarrow> callback option \<Rightarrow> thrown \<Rightarrow> engine option \<Rightarrow> unit run" where
  "fallback K w onProgress workerError engine0 =
     (let t1 = [ConsoleWarn ''Web Worker failed, falling back to main thread:'' workerError,
                NewMLCEngine engine_config] in
      case engine_ctor w of
        Some f \<Rightarrow> \<lparr>outcome = Inl (RuntimeFailure f), handle = engine0, effects = t1\<rparr>
      | None \<Rightarrow>
          (let e = \<lparr>kind = MainThreadEngine, loaded = None, conversation = []\<rparr>;
               t2 = t1 @ [Reload (LLM_MODEL K) (chat_options K)]
                       @ concat (map (initProgressCallback onProgress) (reload_reports w)) in
           case reload_result w of
             Some f \<Rightarrow> \<lparr>outcome = Inl (RuntimeFailure f), handle = Some e, effects = t2\<rparr>
           | None \<Rightarrow>
               \<lparr>outcome = Inr (),
                handle = Some (e\<lparr>loaded := Some (LLM_MODEL K, chat_options K)\<rparr>),
                effects = t2 @ [ConsoleLog ''LLM initialised on main thread (fallback)'']\<rparr>))"

definition initLLM ::
  "constants \<Rightarrow> init_script \<Rightarrow> callback option \<Rightarrow> engine option \<Rightarrow> unit run" where
  "initLLM K w onProgress engine0 =
     (let t0 = call_onProgress onProgress (Num 0) ''Initialising language model...'';
          r = (case try_worker K w onProgress of
                 (Inr e, t) \<Rightarrow> \<lparr>outcome = Inr (), handle = Some e, effects = t\<rparr>
               | (Inl workerError, t) \<Rightarrow>
                   (let f = fallback K w onProgress workerError engine0
                    in f\<lparr>effects := t @ effects f\<rparr>))
      in case outcome r of
           Inl err \<Rightarrow> r\<lparr>effects := t0 @ effects r\<rparr>
         | Inr _ \<Rightarrow>
             r\<lparr>effects := t0 @ effects r
                              @ call_onProgress onProgress (Num 100) ''Language model ready''\<rparr>)"

subsection \<open>generate (lines 89-135) and resetChat (lines 140-144)\<close>

definition LF :: char where
  "LF = CHR 0x0A"

text \<open>The template literal of lines 101-108.\<close>

definition prompt_template :: "string \<Rightarrow> string \<Rightarrow> string" where
  "prompt_template context query =
     ''You are BERI, a school policy assistant. Answer the question using ONLY the information below. Be accurate, concise, and precise; use bullet points. Always cite the source policy.''
     @ [LF, LF] @ ''POLICY INFORMATION:'' @ [LF] @ context
     @ [LF, LF] @ ''QUESTION: '' @ query
     @ [LF, LF] @ ''ANSWER:''"

text \<open>Line 124: \<open>chunk.choices[0]?.delta?.content || ''\<close>.\<close>

definition chunk_token :: "ChatCompletionChunk \<Rightarrow> string" where
  "chunk_token chunk =
     (case choices chunk of
        [] \<Rightarrow> []
      | c # _ \<Rightarrow>
          (case delta c of
             None \<Rightarrow> []
           | Some d \<Rightarrow> (case delta_content d of None \<Rightarrow> [] | Some s \<Rightarrow> s)))"

text \<open>The loop of lines 123-129 over the chunks the stream yields, from the value of
  \<open>fullResponse\<close> so far: the final \<open>fullResponse\<close> and the calls of \<open>onToken\<close>.\<close>

fun for_await :: "callback option \<Rightarrow> ChatCompletionChunk list \<Rightarrow> string \<Rightarrow> string \<times> event list" where
  "for_await onToken [] fullResponse = (fullResponse, [])"
| "for_await onToken (chunk # rest) fullResponse =
     (let token = chunk_token chunk in
      if token \<noteq> [] then
        (case for_await onToken rest (fullResponse @ token) of
           (r, t) \<Rightarrow> (r, call_onToken onToken token @ t))
      else for_await onToken rest fullResponse)"

text \<open>What the runtime does during one \<open>generate\<close>: \<open>create\<close> rejects, or resolves to a
  stream that yields finitely many chunks and then ends (\<open>None\<close>) or throws; and whether
  \<open>engine.resetChat()\<close> rejects.\<close>

record generate_script =
  create_result :: "failure + (ChatCompletionChunk list \<times> failure option)"
  reset_result :: "failure option"

text \<open>The argument of \<open>engine.chat.completions.create\<close>, lines 101-121.\<close>

definition completion_request :: "constants \<Rightarrow> string \<Rightarrow> string \<Rightarrow> ChatCompletionRequest" where
  "completion_request K context query =
     (let prompt = prompt_template context query;
          messages = [\<lparr>role = ''user'', content = prompt\<rparr>]
      in \<lparr>messages = messages,
          max_tokens = MAX_TOKENS K,
          temperature = TEMPERATURE K,
          stream = True\<rparr>)"

definition generate ::
  "constants \<Rightarrow> generate_script \<Rightarrow> string \<Rightarrow> string \<Rightarrow> string \<Rightarrow> callback option
     \<Rightarrow> engine option \<Rightarrow> string run" where
  "generate K w systemPrompt context query onToken engine0 =
     (case engine0 of
        None \<Rightarrow> \<lparr>outcome = Inl (Error ''LLM not initialised''), handle = None, effects = []\<rparr>
      | Some e \<Rightarrow>
          (let req = completion_request K context query;
               t1 = [ChatCompletionsCreate req] in
           case create_result w of
             Inl f \<Rightarrow> \<lparr>outcome = Inl (RuntimeFailure f), handle = Some e, effects = t1\<rparr>
           | Inr (chunks, ending) \<Rightarrow>
               (case for_await onToken chunks [] of
                  (fullResponse, t2) \<Rightarrow>
                    (case ending of
                       Some f \<Rightarrow>
                         \<lparr>outcome = Inl (RuntimeFailure f), handle = Some (submit req e),
                          effects = t1 @ t2\<rparr>
                     | None \<Rightarrow>
                         (case reset_result w of
                            Some f \<Rightarrow>
                              \<lparr>outcome = Inl (RuntimeFailure f), handle = Some (submit req e),
                               effects = t1 @ t2 @ [EngineResetChat]\<rparr>
                          | None \<Rightarrow>
                              \<lparr>outcome = Inr fullResponse,
                               handle = Some (cleared (submit req e)),
                               effects = t1 @ t2 @ [EngineResetChat]\<rparr>)))))"

text \<open>\<open>resetChat\<close>; the first argument says whether the runtime's \<open>engine.resetChat()\<close>
  rejects.\<close>

definition resetChat :: "failure option \<Rightarrow> engine option \<Rightarrow> unit run" where
  "resetChat reset engine0 =
     (case engine0 of
        None \<Rightarrow> \<lparr>outcome = Inr (), handle = None, effects = []\<rparr>
      | Some e \<Rightarrow>
          (case reset of
             Some f \<Rightarrow>
               \<lparr>outcome = Inl (RuntimeFailure f), handle = Some e, effects = [EngineResetChat]\<rparr>
           | None \<Rightarrow> \<lparr>outcome = Inr (), handle = Some (cleared e), effects = [EngineResetChat]\<rparr>))"

subsection \<open>Reading a run\<close>

text \<open>The arguments of the calls of \<open>onProgress\<close>, of \<open>onToken\<close> and of
  \<open>chat.completions.create\<close> among the effects, in order.\<close>

fun progress_events :: "event list \<Rightarrow> (number \<times> string) list" where
  "progress_events [] = []"
| "progress_events (OnProgress percent message # t) = (percent, message) # progress_events t"
| "progress_events (_ # t) = progress_events t"

fun onToken_calls :: "event list \<Rightarrow> string list" where
  "onToken_calls [] = []"
| "onToken_calls (OnToken token # t) = token # onToken_calls t"
| "onToken_calls (_ # t) = onToken_calls t"

fun submitted :: "event list \<Rightarrow> ChatCompletionRequest list" where
  "submitted [] = []"
| "submitted (ChatCompletionsCreate req # t) = req # submitted t"
| "submitted (_ # t) = submitted t"

fun resets :: "event list \<Rightarrow> nat" where
  "resets [] = 0"
| "resets (EngineResetChat # t) = Suc (resets t)"
| "resets (_ # t) = resets t"

text \<open>What an \<open>init_script\<close> says about the worker attempt, and the reports that reach the
  adapter during the whole call: those of the worker attempt, if it got as far as
  \<open>CreateWebWorkerMLCEngine\<close>, then those of \<open>reload\<close>, if the fallback got that far.\<close>

definition worker_failure :: "init_script \<Rightarrow> failure option" where
  "worker_failure w =
     (case worker_ctor w of Some f \<Rightarrow> Some f | None \<Rightarrow> worker_create w)"

definition delivered_reports :: "init_script \<Rightarrow> InitProgressReport list" where
  "delivered_reports w =
     (case worker_ctor w of None \<Rightarrow> worker_reports w | Some _ \<Rightarrow> [])
     @ (case worker_failure w of
          None \<Rightarrow> []
        | Some _ \<Rightarrow> (case engine_ctor w of None \<Rightarrow> reload_reports w | Some _ \<Rightarrow> []))"

definition rescaled :: "InitProgressReport \<Rightarrow> number \<times> string" where
  "rescaled report = (Math_round (times100 (progress report)), report_text report)"

subsection \<open>Concrete inputs\<close>

definition demo_constants :: constants where
  "demo_constants =
     \<lparr>LLM_MODEL = ''demo-model'', MAX_TOKENS = 512, TEMPERATURE = 1 / 10,
      CONTEXT_WINDOW_SIZE = 2048\<rparr>"

text \<open>The engine that a successful worker initialisation leaves in \<open>engine\<close>.\<close>

definition worker_engine :: "constants \<Rightarrow> engine" where
  "worker_engine K =
     \<lparr>kind = WebWorkerEngine, loaded = Some (LLM_MODEL K, chat_options K), conversation = []\<rparr>"

text \<open>The engine that \<open>new MLCEngine\<close> returns, before any \<open>reload\<close>.\<close>

definition unloaded_engine :: engine where
  "unloaded_engine = \<lparr>kind = MainThreadEngine, loaded = None, conversation = []\<rparr>"

definition text_chunk :: "string \<Rightarrow> ChatCompletionChunk" where
  "text_chunk s = \<lparr>choices = [\<lparr>delta = Some \<lparr>delta_content = Some s\<rparr>\<rparr>]\<rparr>"

definition empty_chunk :: ChatCompletionChunk where
  "empty_chunk = \<lparr>choices = []\<rparr>"

text \<open>A runtime that streams "Lunch ", a chunk without choices, "starts ", an empty
  fragment, "at 12:00." and ends; its \<open>resetChat\<close> resolves.\<close>

definition lunch_script :: generate_script where
  "lunch_script =
     \<lparr>create_result =
        Inr ([text_chunk ''Lunch '', empty_chunk, text_chunk ''starts '', text_chunk [],
              text_chunk ''at 12:00.''], None),
      reset_result = None\<rparr>"

text \<open>A runtime whose stream yields "Lunch " and then throws.\<close>

definition broken_stream_script :: generate_script where
  "broken_stream_script =
     \<lparr>create_result = Inr ([text_chunk ''Lunch ''], Some ''connection lost''),
      reset_result = None\<rparr>"

text \<open>The doubles written 0.995 and 0.015. Times 100 they are 99.5 and 1.5 as doubles,
  though a little less than that exactly.\<close>

definition double_0995 :: number where
  "double_0995 = Num (8962163258467287 / 9007199254740992)"

definition double_0015 :: number where
  "double_0015 = Num (1080863910568919 / 72057594037927936)"

text \<open>A host where the worker loads half of the model and then fails, and the in-process
  load starts over and succeeds.\<close>

definition restart_script :: init_script where
  "restart_script =
     \<lparr>worker_ctor = None,
      worker_reports = [\<lparr>progress = Num (1 / 2), report_text = ''Loading model''\<rparr>],
      worker_create = Some ''worker crashed'',
      engine_ctor = None,
      reload_reports = [\<lparr>progress = double_0015, report_text = ''Loading model''\<rparr>],
      reload_result = None\<rparr>"

text \<open>A host where the worker engine loads in four steps.\<close>

definition steady_script :: init_script where
  "steady_script =
     \<lparr>worker_ctor = None,
      worker_reports = [\<lparr>progress = Num (1 / 4), report_text = ''Fetching''\<rparr>,
                        \<lparr>progress = Num (1 / 2), report_text = ''Loading model''\<rparr>,
                        \<lparr>progress = double_0995, report_text = ''Finishing''\<rparr>,
                        \<lparr>progress = Num 1, report_text = ''Done''\<rparr>],
      worker_create = None,
      engine_ctor = None,
      reload_reports = [],
      reload_result = None\<rparr>"

text \<open>A host without \<open>Worker\<close> on which the in-process load fails as well.\<close>

definition both_fail_script :: init_script where
  "both_fail_script =
     \<lparr>worker_ctor = Some ''Worker is not defined'',
      worker_reports = [],
      worker_create = None,
      engine_ctor = None,
      reload_reports = [\<lparr>progress = Num (1 / 4), report_text = ''Loading model''\<rparr>],
      reload_result = Some ''out of memory''\<rparr>"



text \<open>A runtime that rejects the request, as an engine without a model would.\<close>

definition rejecting_script :: generate_script where
  "rejecting_script = \<lparr>create_result = Inl ''no model loaded'', reset_result = None\<rparr>"

section \<open>Properties\<close>

subsection \<open>Rounding to doubles\<close>

lemma ilog2_bounds:
  assumes "0 < x"
  shows "2 powi ilog2 x \<le> x" and "x < 2 powi (ilog2 x + 1)"
proof -
  have "2 powi ilog2 x \<le> x \<and> x < 2 powi (ilog2 x + 1)"
  proof (cases "1 \<le> x")
    case True
    define n where "n = \<lfloor>x\<rfloor>"
    have n: "0 < n" using True by (simp add: n_def)
    have b: "1 \<le> bitlen n" using n bitlen_eq_zero_iff [of n] bitlen_nonneg [of n] by linarith
    from bitlen_bounds [OF n] have lo: "2 ^ nat (bitlen n - 1) \<le> n" and hi: "n < 2 ^ nat (bitlen n)"
      by auto
    have "(2::rat) powi (bitlen n - 1) = of_int (2 ^ nat (bitlen n - 1))"
      using b by (simp add: power_int_def)
    also have "\<dots> \<le> of_int n" using lo by (simp only: of_int_le_iff)
    also have "\<dots> \<le> x" by (simp add: n_def)
    finally have 1: "(2::rat) powi (bitlen n - 1) \<le> x" .
    have "n + 1 \<le> 2 ^ nat (bitlen n)" using hi by simp
    then have "(of_int (n + 1) :: rat) \<le> of_int (2 ^ nat (bitlen n))"
      by (simp only: of_int_le_iff)
    moreover have "x < of_int (n + 1)" using floor_correct [of x] by (simp add: n_def)
    ultimately have "x < of_int (2 ^ nat (bitlen n))" by linarith
    also have "\<dots> = (2::rat) powi (bitlen n)" using b by (simp add: power_int_def)
    finally have 2: "x < (2::rat) powi (bitlen n - 1 + 1)" by simp
    from 1 2 True show ?thesis by (simp add: ilog2_def n_def)
  next
    case False
    define c where "c = \<lceil>1 / x\<rceil>"
    have x1: "x < 1" using False by simp
    have inv: "1 < 1 / x" using assms x1 by simp
    have c2: "2 \<le> c" using inv by (simp add: c_def le_ceiling_iff)
    define j where "j = bitlen (c - 1)"
    have c1: "0 < c - 1" using c2 by simp
    have j1: "1 \<le> j"
      using c1 bitlen_eq_zero_iff [of "c - 1"] bitlen_nonneg [of "c - 1"] unfolding j_def by linarith
    from bitlen_bounds [OF c1] have lo: "2 ^ nat (j - 1) \<le> c - 1" and hi: "c - 1 < 2 ^ nat j"
      by (auto simp: j_def)
    have "1 / x \<le> of_int c" by (simp add: c_def)
    also have "(of_int c :: rat) \<le> of_int (2 ^ nat j)" using hi by (simp only: of_int_le_iff)
    also have "\<dots> = 2 powi j" using j1 by (simp add: power_int_def)
    finally have "1 / x \<le> 2 powi j" .
    then have "1 \<le> 2 powi j * x" using assms by (simp add: field_simps)
    then have 1: "2 powi (- j) \<le> x"
      by (simp add: power_int_minus field_simps)
    have "(of_int (2 ^ nat (j - 1)) :: rat) \<le> of_int (c - 1)" using lo by (simp only: of_int_le_iff)
    moreover have "(of_int (c - 1) :: rat) < 1 / x"
      unfolding c_def using ceiling_correct [of "1 / x"] by simp
    ultimately have "(of_int (2 ^ nat (j - 1)) :: rat) < 1 / x" by linarith
    moreover have "(of_int (2 ^ nat (j - 1)) :: rat) = 2 powi (j - 1)"
      using j1 by (simp add: power_int_def)
    ultimately have "2 powi (j - 1) < 1 / x" by simp
    then have "x * 2 powi (j - 1) < 1" using assms by (simp add: field_simps)
    moreover have "2 powi (- j + 1) * 2 powi (j - 1) = (1::rat)"
      by (simp flip: power_int_add)
    ultimately have "x * 2 powi (j - 1) < 2 powi (- j + 1) * 2 powi (j - 1)" by simp
    moreover have "0 < (2::rat) powi (j - 1)" by simp
    ultimately have 2: "x < 2 powi (- j + 1)" by (simp only: mult_less_cancel_right_pos)
    from 1 2 False show ?thesis by (simp add: ilog2_def c_def j_def)
  qed
  then show "2 powi ilog2 x \<le> x" and "x < 2 powi (ilog2 x + 1)" by auto
qed

lemma ilog2_mono:
  assumes "0 < x" "x \<le> y"
  shows "ilog2 x \<le> ilog2 y"
proof (rule ccontr)
  assume "\<not> ilog2 x \<le> ilog2 y"
  then have "ilog2 y + 1 \<le> ilog2 x" by simp
  then have "(2::rat) powi (ilog2 y + 1) \<le> 2 powi ilog2 x"
    by (intro power_int_increasing) auto
  with ilog2_bounds(1) [OF assms(1)] ilog2_bounds(2) [of y] assms show False by simp
qed

lemma round_even_bounds: "of_int (round_even x) \<le> x + 1 / 2" "x - 1 / 2 \<le> of_int (round_even x)"
  by (auto simp: round_even_def Let_def) linarith+

lemma round_even_of_int [simp]: "round_even (of_int n) = n"
  by (simp add: round_even_def)

lemma round_even_mono:
  assumes "x \<le> y"
  shows "round_even x \<le> round_even y"
proof (cases "\<lfloor>x\<rfloor> = \<lfloor>y\<rfloor>")
  case True
  with assms show ?thesis by (auto simp: round_even_def Let_def)
next
  case False
  with assms have "\<lfloor>x\<rfloor> + 1 \<le> \<lfloor>y\<rfloor>" using floor_mono [OF assms] by simp
  moreover have "round_even x \<le> \<lfloor>x\<rfloor> + 1" by (simp add: round_even_def Let_def)
  moreover have "\<lfloor>y\<rfloor> \<le> round_even y" by (simp add: round_even_def Let_def)
  ultimately show ?thesis by simp
qed

lemma nearest_nonneg: "0 \<le> x \<Longrightarrow> 0 \<le> nearest x"
proof -
  assume x: "0 \<le> x"
  define e where "e = max (ilog2 x - 52) (- 1074)"
  have "0 \<le> x / 2 powi e" using x by simp
  then have "round_even 0 \<le> round_even (x / 2 powi e)" by (rule round_even_mono)
  then have "0 \<le> round_even (x / 2 powi e)" using round_even_of_int [of 0] by simp
  then show ?thesis by (simp add: nearest_def Let_def e_def)
qed

lemma nearest_mono:
  assumes "0 < x" "x \<le> y"
  shows "nearest x \<le> nearest y"
proof -
  define ex where "ex = max (ilog2 x - 52) (- 1074)"
  define ey where "ey = max (ilog2 y - 52) (- 1074)"
  have y: "0 < y" using assms by simp
  have nx: "nearest x = of_int (round_even (x / 2 powi ex)) * 2 powi ex"
    and ny: "nearest y = of_int (round_even (y / 2 powi ey)) * 2 powi ey"
    by (simp_all add: nearest_def Let_def ex_def ey_def)
  have le: "ex \<le> ey" using ilog2_mono [OF assms] by (simp add: ex_def ey_def)
  show ?thesis
  proof (cases "ex = ey")
    case True
    have "x / 2 powi ey \<le> y / 2 powi ey" using assms by (simp add: divide_right_mono)
    then have "round_even (x / 2 powi ey) \<le> round_even (y / 2 powi ey)" by (rule round_even_mono)
    then have "(of_int (round_even (x / 2 powi ey)) :: rat) \<le> of_int (round_even (y / 2 powi ey))"
      by (simp only: of_int_le_iff)
    then show ?thesis unfolding nx ny True by (simp add: mult_right_mono)
  next
    case False
    with le have lt: "ex < ey" by simp
    then have ey: "ey = ilog2 y - 52" by (auto simp: ex_def ey_def)
    have "ilog2 x - 52 \<le> ex" by (simp add: ex_def)
    then have "ilog2 x + 1 \<le> ex + 53" by simp
    then have "(2::rat) powi (ilog2 x + 1) \<le> 2 powi (ex + 53)"
      by (intro power_int_increasing) auto
    with ilog2_bounds(2) [OF assms(1)] have "x \<le> 2 powi (ex + 53)" by simp
    also have "\<dots> = 2 ^ 53 * 2 powi ex" by (simp add: power_int_add)
    finally have "x / 2 powi ex \<le> of_int (2 ^ 53)" by (simp add: field_simps)
    then have "round_even (x / 2 powi ex) \<le> round_even (of_int (2 ^ 53))" by (rule round_even_mono)
    then have "round_even (x / 2 powi ex) \<le> 2 ^ 53" by (simp only: round_even_of_int)
    then have "(of_int (round_even (x / 2 powi ex)) :: rat) \<le> of_int (2 ^ 53)"
      by (simp only: of_int_le_iff)
    then have "nearest x \<le> 2 ^ 53 * 2 powi ex" unfolding nx by (simp add: mult_right_mono)
    also have "\<dots> = 2 powi (ex + 53)" by (simp add: power_int_add)
    also have "\<dots> \<le> 2 powi (ey + 52)" using lt by (intro power_int_increasing) auto
    finally have 1: "nearest x \<le> 2 powi (ey + 52)" .
    have "2 powi (ey + 52) \<le> y" using ilog2_bounds(1) [OF y] by (simp add: ey)
    moreover have "(2::rat) powi (ey + 52) = 2 ^ 52 * 2 powi ey" by (simp add: power_int_add)
    ultimately have "of_int (2 ^ 52) \<le> y / 2 powi ey" by (simp add: field_simps)
    then have "round_even (of_int (2 ^ 52)) \<le> round_even (y / 2 powi ey)" by (rule round_even_mono)
    then have "2 ^ 52 \<le> round_even (y / 2 powi ey)" by (simp only: round_even_of_int)
    then have "(of_int (2 ^ 52) :: rat) \<le> of_int (round_even (y / 2 powi ey))"
      by (simp only: of_int_le_iff)
    then have "2 ^ 52 * 2 powi ey \<le> nearest y" unfolding ny by (simp add: mult_right_mono)
    then have 2: "2 powi (ey + 52) \<le> nearest y" by (simp add: power_int_add)
    from 1 2 show ?thesis by simp
  qed
qed

lemma nearest_100: "nearest 100 = 100"
  by code_simp

lemma nearest_0: "nearest 0 = 0"
  using round_even_of_int [of 0] by (simp add: nearest_def Let_def)

lemma to_double_small:
  assumes "0 \<le> x" "x \<le> 100"
  shows "to_double x = Num (nearest x)" and "0 \<le> nearest x" and "nearest x \<le> 100"
proof -
  show nn: "0 \<le> nearest x" using assms(1) by (rule nearest_nonneg)
  show le: "nearest x \<le> 100"
  proof (cases "x = 0")
    case True
    then show ?thesis by (simp add: nearest_0)
  next
    case False
    with assms have "0 < x" by simp
    from nearest_mono [OF this assms(2)] show ?thesis by (simp add: nearest_100)
  qed
  have "(100::rat) < 2 ^ 1024" by simp
  with le have "\<not> 2 ^ 1024 \<le> nearest x" by linarith
  with assms(1) show "to_double x = Num (nearest x)"
    by (auto simp: to_double_def Let_def nearest_0)
qed

lemma fraction_iff:
  "(number_le (Num 0) n \<and> number_le n (Num 1)) = (fraction n \<noteq> None)"
  by (cases n) auto

lemma percent_fraction:
  assumes "fraction n = Some p"
  shows "\<exists>k. 0 \<le> k \<and> k \<le> 100 \<and> k = \<lfloor>nearest (p * 100) + 1 / 2\<rfloor>
           \<and> (Math_round (times100 n) = Num (of_int k) \<or> Math_round (times100 n) = NegZero \<and> k = 0)"
proof (cases n)
  case (Num q)
  with assms have q: "q = p" "0 \<le> p" "p \<le> 1" by (auto split: if_splits)
  then have r: "0 \<le> p * 100" "p * 100 \<le> 100" by simp_all
  note d = to_double_small [OF r]
  have "0 \<le> \<lfloor>nearest (p * 100) + 1 / 2\<rfloor>" using d(2) by simp
  moreover have "\<lfloor>nearest (p * 100) + 1 / 2\<rfloor> \<le> 100"
  proof -
    have "nearest (p * 100) + 1 / 2 < 101" using d(3) by simp
    then show ?thesis by (simp add: floor_le_iff)
  qed
  moreover have "Math_round (times100 n) = Num (of_int \<lfloor>nearest (p * 100) + 1 / 2\<rfloor>)"
    using d(1,2) by (simp add: times100_def Math_round_def Num q Let_def)
  ultimately show ?thesis by blast
next
  case NegZero
  with assms have "p = 0" by simp
  then show ?thesis
    using NegZero
    by (simp add: times100_def Math_round_def nearest_0 floor_eq_iff)
qed (use assms in simp_all)

lemma percent_mono:
  assumes "fraction a = Some p" "fraction b = Some q" "p \<le> q"
  shows "\<lfloor>nearest (p * 100) + 1 / 2\<rfloor> \<le> \<lfloor>nearest (q * 100) + 1 / 2\<rfloor>"
proof -
  have p: "0 \<le> p" using assms(1) by (cases a) (auto split: if_splits)
  have "nearest (p * 100) \<le> nearest (q * 100)"
  proof (cases "p = 0")
    case True
    have "0 \<le> q * 100" using p assms(3) by simp
    then show ?thesis using True nearest_nonneg [of "q * 100"] by (simp add: nearest_0)
  next
    case False
    with p have "0 < p * 100" by simp
    moreover have "p * 100 \<le> q * 100" using assms(3) by simp
    ultimately show ?thesis by (rule nearest_mono)
  qed
  then show ?thesis by (intro floor_mono) simp
qed

lemma number_le_fraction:
  "fraction a = Some p \<Longrightarrow> fraction b = Some q \<Longrightarrow> number_le a b = (p \<le> q)"
  by (cases a; cases b) (auto split: if_splits)

lemma number_le_percent:
  assumes "fraction a = Some p" "fraction b = Some q" "number_le a b"
  shows "number_le (Math_round (times100 a)) (Math_round (times100 b))"
    and "number_le (Num 0) (Math_round (times100 a))"
    and "number_le (Math_round (times100 a)) (Num 100)"
proof -
  from assms have pq: "p \<le> q" by (simp add: number_le_fraction)
  from percent_fraction [OF assms(1)] obtain k where
    k: "0 \<le> k" "k \<le> 100" "k = \<lfloor>nearest (p * 100) + 1 / 2\<rfloor>"
       "Math_round (times100 a) = Num (of_int k) \<or> Math_round (times100 a) = NegZero \<and> k = 0" by blast
  from percent_fraction [OF assms(2)] obtain l where
    l: "0 \<le> l" "l \<le> 100" "l = \<lfloor>nearest (q * 100) + 1 / 2\<rfloor>"
       "Math_round (times100 b) = Num (of_int l) \<or> Math_round (times100 b) = NegZero \<and> l = 0" by blast
  have "k \<le> l" using percent_mono [OF assms(1,2) pq] k(3) l(3) by simp
  with k l show "number_le (Math_round (times100 a)) (Math_round (times100 b))" by auto
  from k show "number_le (Num 0) (Math_round (times100 a))" by auto
  from k show "number_le (Math_round (times100 a)) (Num 100)" by auto
qed

text \<open>Some percentages. The third and the fourth differ from what exact arithmetic
  would give (99 and 1); the fifth is -0.\<close>

lemma percent_quarter [simp]: "Math_round (times100 (Num (1 / 4))) = Num 25"
  by code_simp

lemma percent_half [simp]: "Math_round (times100 (Num (1 / 2))) = Num 50"
  by code_simp

lemma percent_0995 [simp]: "Math_round (times100 double_0995) = Num 100"
  by code_simp

lemma percent_0015 [simp]: "Math_round (times100 double_0015) = Num 2"
  by code_simp

lemma percent_minus_0005:
  "Math_round (times100 (Num (- 5764607523034235 / 1152921504606846976))) = NegZero"
  by code_simp

lemma percent_one [simp]: "Math_round (times100 (Num 1)) = Num 100"
  by code_simp

subsection \<open>Reading effects\<close>

lemma progress_events_append:
  "progress_events (a @ b) = progress_events a @ progress_events b"
  by (induction a rule: progress_events.induct) simp_all

lemma onToken_calls_append: "onToken_calls (a @ b) = onToken_calls a @ onToken_calls b"
  by (induction a rule: onToken_calls.induct) simp_all

lemma submitted_append: "submitted (a @ b) = submitted a @ submitted b"
  by (induction a rule: submitted.induct) simp_all

lemma resets_append: "resets (a @ b) = resets a + resets b"
  by (induction a rule: resets.induct) simp_all

lemma onToken_calls_map: "onToken_calls (map OnToken ts) = ts"
  by (induction ts) simp_all

lemma submitted_map: "submitted (map OnToken ts) = []"
  by (induction ts) simp_all

lemma resets_map: "resets (map OnToken ts) = 0"
  by (induction ts) simp_all

subsection \<open>The streaming loop\<close>

text \<open>The fragments of a stream: the tokens of its chunks that are not empty.\<close>

lemma for_await_Some:
  "for_await (Some cb) chunks acc =
     (acc @ concat (filter (\<lambda>t. t \<noteq> []) (map chunk_token chunks)),
      map OnToken (filter (\<lambda>t. t \<noteq> []) (map chunk_token chunks)))"
  by (induction chunks arbitrary: acc) (simp_all add: call_onToken_def Let_def)

lemma for_await_None:
  "for_await None chunks acc =
     (acc @ concat (filter (\<lambda>t. t \<noteq> []) (map chunk_token chunks)), [])"
  by (induction chunks arbitrary: acc) (simp_all add: call_onToken_def Let_def)

lemma for_await_events:
  "\<exists>ts. snd (for_await onToken chunks acc) = map OnToken ts"
proof (cases onToken)
  case None
  then have "snd (for_await onToken chunks acc) = map OnToken []"
    by (simp add: for_await_None)
  then show ?thesis by blast
next
  case (Some cb)
  then show ?thesis by (auto simp: for_await_Some)
qed

declare for_await.simps [simp del]

lemma chunk_token_text [simp]: "chunk_token (text_chunk s) = s"
  by (simp add: text_chunk_def chunk_token_def)

lemma chunk_token_empty [simp]: "chunk_token empty_chunk = []"
  by (simp add: empty_chunk_def chunk_token_def)

text \<open>The four ways a call with an engine present can go.\<close>

lemma generate_create_rejects:
  "create_result w = Inl f \<Longrightarrow>
   generate K w systemPrompt context query onToken (Some e) =
     \<lparr>outcome = Inl (RuntimeFailure f), handle = Some e,
      effects = [ChatCompletionsCreate (completion_request K context query)]\<rparr>"
  by (simp add: generate_def Let_def)

lemma generate_stream_throws:
  "create_result w = Inr (chunks, Some f) \<Longrightarrow>
   generate K w systemPrompt context query onToken (Some e) =
     \<lparr>outcome = Inl (RuntimeFailure f),
      handle = Some (submit (completion_request K context query) e),
      effects = ChatCompletionsCreate (completion_request K context query)
                  # snd (for_await onToken chunks [])\<rparr>"
  by (simp add: generate_def Let_def split: prod.splits)

lemma generate_reset_rejects:
  "create_result w = Inr (chunks, None) \<Longrightarrow> reset_result w = Some f \<Longrightarrow>
   generate K w systemPrompt context query onToken (Some e) =
     \<lparr>outcome = Inl (RuntimeFailure f),
      handle = Some (submit (completion_request K context query) e),
      effects = ChatCompletionsCreate (completion_request K context query)
                  # snd (for_await onToken chunks []) @ [EngineResetChat]\<rparr>"
  by (simp add: generate_def Let_def split: prod.splits)

lemma generate_returns:
  "create_result w = Inr (chunks, None) \<Longrightarrow> reset_result w = None \<Longrightarrow>
   generate K w systemPrompt context query onToken (Some e) =
     \<lparr>outcome = Inr (fst (for_await onToken chunks [])),
      handle = Some (cleared (submit (completion_request K context query) e)),
      effects = ChatCompletionsCreate (completion_request K context query)
                  # snd (for_await onToken chunks []) @ [EngineResetChat]\<rparr>"
  by (simp add: generate_def Let_def split: prod.splits)

lemma generate_effects_ready:
  "\<exists>t. effects (generate K w systemPrompt context query onToken (Some e)) =
         ChatCompletionsCreate (completion_request K context query) # t
       \<and> submitted t = []"
proof -
  obtain ts where ts: "snd (for_await onToken (fst (projr (create_result w))) []) = map OnToken ts"
    using for_await_events by blast
  show ?thesis
    using ts
    by (cases "create_result w")
       (auto simp: generate_def Let_def submitted_append submitted_map
             split: prod.splits option.splits)
qed

lemma completion_request_literal:
  "completion_request K context query =
     \<lparr>messages =
        [\<lparr>role = ''user'',
          content =
            ''You are BERI, a school policy assistant. Answer the question using ONLY the information below. Be accurate, concise, and precise; use bullet points. Always cite the source policy.''
            @ LF # LF # ''POLICY INFORMATION:'' @ LF # context
            @ LF # LF # ''QUESTION: '' @ query
            @ LF # LF # ''ANSWER:''\<rparr>],
      max_tokens = MAX_TOKENS K, temperature = TEMPERATURE K, stream = True\<rparr>"
  unfolding completion_request_def prompt_template_def Let_def by simp

text \<open>The run against the runtime of \<open>lunch_script\<close>.\<close>

lemma lunch_run:
  "generate demo_constants lunch_script systemPrompt context query (Some Callback) (Some e) =
     \<lparr>outcome = Inr ''Lunch starts at 12:00.'',
      handle = Some (cleared (submit (completion_request demo_constants context query) e)),
      effects = [ChatCompletionsCreate (completion_request demo_constants context query),
                 OnToken ''Lunch '', OnToken ''starts '', OnToken ''at 12:00.'',
                 EngineResetChat]\<rparr>"
  by (simp add: generate_returns [where chunks = "[text_chunk ''Lunch '', empty_chunk,
        text_chunk ''starts '', text_chunk [], text_chunk ''at 12:00.'']"]
      lunch_script_def for_await_Some)

text \<open>The run against the runtime of \<open>broken_stream_script\<close>.\<close>

lemma broken_stream_run:
  "generate demo_constants broken_stream_script systemPrompt context query (Some Callback) (Some e) =
     \<lparr>outcome = Inl (RuntimeFailure ''connection lost''),
      handle = Some (submit (completion_request demo_constants context query) e),
      effects = [ChatCompletionsCreate (completion_request demo_constants context query),
                 OnToken ''Lunch '']\<rparr>"
  by (simp add: generate_stream_throws [where chunks = "[text_chunk ''Lunch '']"
        and f = "''connection lost''"] broken_stream_script_def for_await_Some)

lemma resets_for_await: "resets (snd (for_await onToken chunks acc)) = 0"
  using for_await_events [of onToken chunks acc] by (auto simp: resets_map)

subsection \<open>The ways a call of initLLM can go\<close>

lemma try_worker_ok:
  "worker_failure w = None \<Longrightarrow>
   try_worker K w onProgress =
     (Inr (worker_engine K),
      [NewWorker ''./llm.worker.ts'' ''module'',
       CreateWebWorkerMLCEngine (LLM_MODEL K) engine_config (chat_options K)]
      @ concat (map (initProgressCallback onProgress) (worker_reports w))
      @ [ConsoleLog ''LLM initialised with Web Worker''])"
  by (simp add: try_worker_def worker_failure_def worker_engine_def Let_def split: option.splits)

lemma try_worker_fails:
  "worker_failure w = Some f \<Longrightarrow>
   try_worker K w onProgress =
     (Inl (RuntimeFailure f),
      NewWorker ''./llm.worker.ts'' ''module''
      # (case worker_ctor w of
           Some _ \<Rightarrow> []
         | None \<Rightarrow>
             CreateWebWorkerMLCEngine (LLM_MODEL K) engine_config (chat_options K)
             # concat (map (initProgressCallback onProgress) (worker_reports w))))"
  by (auto simp: try_worker_def worker_failure_def Let_def split: option.splits)

lemma initLLM_worker:
  "worker_failure w = None \<Longrightarrow>
   initLLM K w onProgress engine0 =
     \<lparr>outcome = Inr (), handle = Some (worker_engine K),
      effects = call_onProgress onProgress (Num 0) ''Initialising language model...''
                @ snd (try_worker K w onProgress)
                @ call_onProgress onProgress (Num 100) ''Language model ready''\<rparr>"
  by (simp add: initLLM_def try_worker_ok Let_def)

lemma initLLM_ctor_fails:
  "worker_failure w = Some f \<Longrightarrow> engine_ctor w = Some g \<Longrightarrow>
   initLLM K w onProgress engine0 =
     \<lparr>outcome = Inl (RuntimeFailure g), handle = engine0,
      effects = call_onProgress onProgress (Num 0) ''Initialising language model...''
                @ snd (try_worker K w onProgress)
                @ [ConsoleWarn ''Web Worker failed, falling back to main thread:'' (RuntimeFailure f),
                   NewMLCEngine engine_config]\<rparr>"
  by (simp add: initLLM_def try_worker_fails fallback_def Let_def)

lemma initLLM_reload_fails:
  "worker_failure w = Some f \<Longrightarrow> engine_ctor w = None \<Longrightarrow> reload_result w = Some g \<Longrightarrow>
   initLLM K w onProgress engine0 =
     \<lparr>outcome = Inl (RuntimeFailure g), handle = Some unloaded_engine,
      effects = call_onProgress onProgress (Num 0) ''Initialising language model...''
                @ snd (try_worker K w onProgress)
                @ [ConsoleWarn ''Web Worker failed, falling back to main thread:'' (RuntimeFailure f),
                   NewMLCEngine engine_config,
                   Reload (LLM_MODEL K) (chat_options K)]
                @ concat (map (initProgressCallback onProgress) (reload_reports w))\<rparr>"
  by (simp add: initLLM_def try_worker_fails fallback_def unloaded_engine_def Let_def)

lemma initLLM_fallback:
  "worker_failure w = Some f \<Longrightarrow> engine_ctor w = None \<Longrightarrow> reload_result w = None \<Longrightarrow>
   initLLM K w onProgress engine0 =
     \<lparr>outcome = Inr (),
      handle = Some (unloaded_engine\<lparr>loaded := Some (LLM_MODEL K, chat_options K)\<rparr>),
      effects = call_onProgress onProgress (Num 0) ''Initialising language model...''
                @ snd (try_worker K w onProgress)
                @ [ConsoleWarn ''Web Worker failed, falling back to main thread:'' (RuntimeFailure f),
                   NewMLCEngine engine_config,
                   Reload (LLM_MODEL K) (chat_options K)]
                @ concat (map (initProgressCallback onProgress) (reload_reports w))
                @ [ConsoleLog ''LLM initialised on main thread (fallback)'']
                @ call_onProgress onProgress (Num 100) ''Language model ready''\<rparr>"
  by (simp add: initLLM_def try_worker_fails fallback_def unloaded_engine_def Let_def)

subsection \<open>generate\<close>

text \<open>
  C4. Called while \<open>engine\<close> is \<open>null\<close>, \<open>generate\<close> rejects with the module's own
  \<open>Error('LLM not initialised')\<close>, whatever its arguments and whatever the runtime would
  have answered; it made no call to the outside (no request, no \<open>onToken\<close>, no
  \<open>resetChat\<close>) and \<open>engine\<close> is still \<open>null\<close>.
\<close>

theorem generate_before_init:
  "generate K w systemPrompt context query onToken None =
     \<lparr>outcome = Inl (Error ''LLM not initialised''), handle = None, effects = []\<rparr>"
  by (simp add: generate_def)

text \<open>
  C10. The first parameter has no effect: two calls that differ only in it have the same
  run, that is the same request submitted, the same calls of \<open>onToken\<close>, the same result
  and the same engine state afterwards.
\<close>

theorem generate_ignores_systemPrompt:
  "generate K w systemPrompt1 context query onToken engine0 =
   generate K w systemPrompt2 context query onToken engine0"
  by (simp add: generate_def)

text \<open>
  C3. With an engine present, \<open>generate\<close> submits exactly one request, as its first
  effect, with streaming on and the configured limits. The request holds one message of
  role "user" whose content is the fixed directive, a blank line, the label
  "POLICY INFORMATION:" and the context on the next line, a blank line, the label
  "QUESTION: " and the query, a blank line, and "ANSWER:". Context and query appear
  whole and unchanged, in that order, and the content depends on nothing else.
\<close>

theorem generate_submits_prompt:
  "\<exists>t. effects (generate K w systemPrompt context query onToken (Some e)) =
         ChatCompletionsCreate
           \<lparr>messages =
              [\<lparr>role = ''user'',
                content =
                  ''You are BERI, a school policy assistant. Answer the question using ONLY the information below. Be accurate, concise, and precise; use bullet points. Always cite the source policy.''
                  @ LF # LF # ''POLICY INFORMATION:'' @ LF # context
                  @ LF # LF # ''QUESTION: '' @ query
                  @ LF # LF # ''ANSWER:''\<rparr>],
            max_tokens = MAX_TOKENS K, temperature = TEMPERATURE K, stream = True\<rparr> # t
       \<and> submitted t = []"
  using generate_effects_ready [of K w systemPrompt "context" query onToken e]
  unfolding completion_request_literal .

text \<open>
  C2. When a call with an \<open>onToken\<close> callback returns a string, the stream ended normally,
  the fragments handed to \<open>onToken\<close> are, in order, exactly the non-empty tokens of the
  chunks the stream yielded (none left out, none repeated, none empty), and the string
  returned is their concatenation.
\<close>

theorem generate_result_is_concat_of_tokens:
  assumes "outcome (generate K w systemPrompt context query (Some cb) engine0) = Inr result"
  shows "(\<exists>chunks. create_result w = Inr (chunks, None)
            \<and> onToken_calls (effects (generate K w systemPrompt context query (Some cb) engine0))
                = filter (\<lambda>t. t \<noteq> []) (map chunk_token chunks))
       \<and> [] \<notin> set (onToken_calls (effects (generate K w systemPrompt context query (Some cb) engine0)))
       \<and> result = concat (onToken_calls (effects (generate K w systemPrompt context query (Some cb) engine0)))"
  using assms
  by (auto simp: generate_def Let_def for_await_Some onToken_calls_append onToken_calls_map
           split: option.splits sum.splits prod.splits)

theorem generate_result_is_concat_of_tokens_witness:
  "outcome (generate demo_constants lunch_script [] ''Policy: lunch starts at 12:00.''
              ''When does lunch start?'' (Some Callback) (Some (worker_engine demo_constants)))
     = Inr ''Lunch starts at 12:00.''
   \<and> [] \<notin> set (onToken_calls (effects (generate demo_constants lunch_script []
          ''Policy: lunch starts at 12:00.'' ''When does lunch start?'' (Some Callback)
          (Some (worker_engine demo_constants)))))
   \<and> ''Lunch starts at 12:00.''
       = concat (onToken_calls (effects (generate demo_constants lunch_script []
          ''Policy: lunch starts at 12:00.'' ''When does lunch start?'' (Some Callback)
          (Some (worker_engine demo_constants)))))"
proof -
  have run: "outcome (generate demo_constants lunch_script [] ''Policy: lunch starts at 12:00.''
              ''When does lunch start?'' (Some Callback) (Some (worker_engine demo_constants)))
     = Inr ''Lunch starts at 12:00.''"
    by (simp add: lunch_run)
  from generate_result_is_concat_of_tokens [OF run]
  have "[] \<notin> set (onToken_calls (effects (generate demo_constants lunch_script []
          ''Policy: lunch starts at 12:00.'' ''When does lunch start?'' (Some Callback)
          (Some (worker_engine demo_constants)))))
   \<and> ''Lunch starts at 12:00.''
       = concat (onToken_calls (effects (generate demo_constants lunch_script []
          ''Policy: lunch starts at 12:00.'' ''When does lunch start?'' (Some Callback)
          (Some (worker_engine demo_constants)))))"
    by (rule conjunct2)
  with run show ?thesis by (rule conjI)
qed

text \<open>The calls of \<open>onToken\<close> in that run, and the case of a call without a callback: the
  string returned is the same concatenation, and nothing is called.\<close>

lemma lunch_calls:
  "onToken_calls (effects (generate demo_constants lunch_script systemPrompt context query
      (Some Callback) (Some e)))
     = [''Lunch '', ''starts '', ''at 12:00.'']"
  by (simp add: lunch_run)

lemma generate_without_callback:
  assumes "outcome (generate K w systemPrompt context query None engine0) = Inr result"
  shows "\<exists>chunks. create_result w = Inr (chunks, None)
           \<and> result = concat (filter (\<lambda>t. t \<noteq> []) (map chunk_token chunks))
           \<and> onToken_calls (effects (generate K w systemPrompt context query None engine0)) = []"
  using assms
  by (auto simp: generate_def Let_def for_await_None
           split: option.splits sum.splits prod.splits)

text \<open>
  C1 (as stated, refuted). The claim asks for the reset on every exit path. In this run
  the stream yields one fragment and throws: \<open>generate\<close> rejects with the stream's
  failure, \<open>onToken\<close> has been called once, and \<open>engine.resetChat()\<close> has not been called.
\<close>

theorem generate_no_reset_counterexample:
  "outcome (generate demo_constants broken_stream_script [] ''Policy: lunch starts at 12:00.''
              ''When does lunch start?'' (Some Callback) (Some (worker_engine demo_constants)))
     = Inl (RuntimeFailure ''connection lost'')
   \<and> onToken_calls (effects (generate demo_constants broken_stream_script []
          ''Policy: lunch starts at 12:00.'' ''When does lunch start?'' (Some Callback)
          (Some (worker_engine demo_constants)))) = [''Lunch '']
   \<and> resets (effects (generate demo_constants broken_stream_script []
          ''Policy: lunch starts at 12:00.'' ''When does lunch start?'' (Some Callback)
          (Some (worker_engine demo_constants)))) = 0
   \<and> EngineResetChat \<notin> set (effects (generate demo_constants broken_stream_script []
          ''Policy: lunch starts at 12:00.'' ''When does lunch start?'' (Some Callback)
          (Some (worker_engine demo_constants))))"
  by (simp add: broken_stream_run)

text \<open>
  C1 (amended). With an engine present, whenever the request is accepted and the stream
  is consumed to its end, \<open>engine.resetChat()\<close> is called exactly once, as the last
  effect of the call: after every call of \<open>onToken\<close>, and before \<open>generate\<close> returns (or
  rejects with the failure of the reset itself).
\<close>

theorem generate_resets_after_stream:
  assumes "create_result w = Inr (chunks, None)"
  shows "\<exists>t. effects (generate K w systemPrompt context query onToken (Some e))
               = t @ [EngineResetChat]
           \<and> resets t = 0
           \<and> onToken_calls t
               = onToken_calls (effects (generate K w systemPrompt context query onToken (Some e)))"
proof (cases "reset_result w")
  case None
  with assms show ?thesis
    by (simp add: generate_returns [where chunks = chunks] resets_for_await onToken_calls_append)
next
  case (Some f)
  with assms show ?thesis
    by (simp add: generate_reset_rejects [where chunks = chunks] resets_for_await
        onToken_calls_append)
qed

theorem generate_resets_after_stream_witness:
  "create_result lunch_script
     = Inr ([text_chunk ''Lunch '', empty_chunk, text_chunk ''starts '', text_chunk [],
             text_chunk ''at 12:00.''], None)
   \<and> (\<exists>t. effects (generate demo_constants lunch_script [] ''Policy: lunch starts at 12:00.''
                ''When does lunch start?'' (Some Callback) (Some (worker_engine demo_constants)))
               = t @ [EngineResetChat]
           \<and> resets t = 0
           \<and> onToken_calls t
               = onToken_calls (effects (generate demo_constants lunch_script []
                   ''Policy: lunch starts at 12:00.'' ''When does lunch start?'' (Some Callback)
                   (Some (worker_engine demo_constants)))))"
proof -
  have script: "create_result lunch_script
     = Inr ([text_chunk ''Lunch '', empty_chunk, text_chunk ''starts '', text_chunk [],
             text_chunk ''at 12:00.''], None)"
    by (simp add: lunch_script_def)
  from script generate_resets_after_stream [OF script]
  show ?thesis by (rule conjI)
qed

subsection \<open>resetChat\<close>

text \<open>
  C7. With no engine, \<open>resetChat\<close> returns without throwing, calls nothing and leaves
  \<open>engine\<close> as it is, whatever the runtime would have answered. With an engine (and a
  runtime whose \<open>resetChat\<close> resolves) it makes the one call \<open>engine.resetChat()\<close>, after
  which the engine's conversation state is empty. A second call in a row leaves the
  state that the first one left, and returns as well.
\<close>

theorem resetChat_safe:
  "resetChat reset None = \<lparr>outcome = Inr (), handle = None, effects = []\<rparr>
   \<and> resetChat None (Some e)
       = \<lparr>outcome = Inr (), handle = Some (e\<lparr>conversation := []\<rparr>),
          effects = [EngineResetChat]\<rparr>
   \<and> handle (resetChat None (handle (resetChat None engine0))) = handle (resetChat None engine0)
   \<and> outcome (resetChat None (handle (resetChat None engine0))) = Inr ()"
  by (cases engine0) (simp_all add: resetChat_def cleared_def)

subsection \<open>checkWebGPU\<close>




text \<open>The other answers of a browser: no \<open>navigator.gpu\<close>, a request that throws, a
  request that resolves to \<open>null\<close>.\<close>

lemma checkWebGPU_false:
  "checkWebGPU \<lparr>navigator = Some \<lparr>gpu = Inr None\<rparr>\<rparr> = Inr False"
  "checkWebGPU \<lparr>navigator = Some \<lparr>gpu = Inr (Some \<lparr>requestAdapter = Inl f\<rparr>)\<rparr>\<rparr> = Inr False"
  "checkWebGPU \<lparr>navigator = Some \<lparr>gpu = Inr (Some \<lparr>requestAdapter = Inr None\<rparr>)\<rparr>\<rparr> = Inr False"
  by (simp_all add: checkWebGPU_def)

subsection \<open>initLLM: progress\<close>

text \<open>What the adapter does with a report.\<close>

lemma adapter_events:
  "initProgressCallback onProgress =
     (\<lambda>r. case onProgress of
             None \<Rightarrow> []
           | Some _ \<Rightarrow> [OnProgress (Math_round (times100 (progress r))) (report_text r)])"
  by (rule ext) (simp add: initProgressCallback_def call_onProgress_def Let_def)

lemma progress_events_reports:
  "progress_events (concat (map (initProgressCallback (Some cb)) rs)) = map rescaled rs"
  by (induction rs) (simp_all add: initProgressCallback_def call_onProgress_def rescaled_def)

lemma progress_events_try_worker:
  "progress_events (snd (try_worker K w (Some cb)))
     = map rescaled (case worker_ctor w of None \<Rightarrow> worker_reports w | Some _ \<Rightarrow> [])"
  by (simp add: try_worker_def Let_def progress_events_append progress_events_reports
      split: option.splits)

lemma initLLM_progress_events:
  assumes "outcome (initLLM K w (Some cb) engine0) = Inr ()"
  shows "progress_events (effects (initLLM K w (Some cb) engine0))
           = (Num 0, ''Initialising language model...'') # map rescaled (delivered_reports w)
             @ [(Num 100, ''Language model ready'')]"
proof (cases "worker_failure w")
  case None
  then show ?thesis
    by (simp add: initLLM_worker progress_events_append progress_events_try_worker
        call_onProgress_def delivered_reports_def)
next
  case (Some f)
  note wf = this
  show ?thesis
  proof (cases "engine_ctor w")
    case (Some g)
    with wf assms show ?thesis by (simp add: initLLM_ctor_fails)
  next
    case None
    note ec = this
    show ?thesis
    proof (cases "reload_result w")
      case (Some g)
      with wf ec assms show ?thesis by (simp add: initLLM_reload_fails)
    next
      case None
      with wf ec show ?thesis
        by (simp add: initLLM_fallback progress_events_append progress_events_try_worker
            progress_events_reports call_onProgress_def delivered_reports_def)
    qed
  qed
qed

lemma sorted_progress_sequence:
  assumes "sorted_wrt number_le (map progress rs)"
    and "\<forall>r\<in>set rs. number_le (Num 0) (progress r) \<and> number_le (progress r) (Num 1)"
  shows "sorted_wrt number_le (map fst ((Num 0, a) # map rescaled rs @ [(Num 100, b)]))"
proof -
  have fr: "\<exists>p. fraction (progress r) = Some p" if "r \<in> set rs" for r
    using assms(2) that fraction_iff [of "progress r"] by auto
  have lo: "number_le (Num 0) (fst (rescaled r))"
    and hi: "number_le (fst (rescaled r)) (Num 100)" if "r \<in> set rs" for r
  proof -
    from fr [OF that] obtain p where p: "fraction (progress r) = Some p" by blast
    have "number_le (progress r) (progress r)" using p by (simp add: number_le_fraction)
    from number_le_percent(2,3) [OF p p this]
    show "number_le (Num 0) (fst (rescaled r))" "number_le (fst (rescaled r)) (Num 100)"
      by (simp_all add: rescaled_def)
  qed
  have step: "number_le (fst (rescaled r)) (fst (rescaled r'))"
    if "r \<in> set rs" "r' \<in> set rs" "number_le (progress r) (progress r')" for r r'
  proof -
    from fr that obtain p q where "fraction (progress r) = Some p" "fraction (progress r') = Some q"
      by blast
    from number_le_percent(1) [OF this that(3)] show ?thesis by (simp add: rescaled_def)
  qed
  have "sorted_wrt (\<lambda>r r'. number_le (progress r) (progress r')) rs"
    using assms(1) by (simp add: sorted_wrt_map)
  then have "sorted_wrt (\<lambda>r r'. number_le (fst (rescaled r)) (fst (rescaled r'))) rs"
    by (rule sorted_wrt_mono_rel [rotated]) (use step in blast)
  then have "sorted_wrt number_le (map fst (map rescaled rs))"
    by (simp add: sorted_wrt_map)
  with lo hi show ?thesis
    by (auto simp: sorted_wrt_append)
qed

text \<open>
  C5 (amended). When \<open>initLLM\<close> succeeds with a progress callback, the callback has
  received (0, "Initialising language model..."), then one event per report that reached
  the adapter, in delivery order (those of the worker attempt, then those of the
  in-process load), each with the percentage \<open>Math.round(progress * 100)\<close>, computed in
  double arithmetic, and the report's text, and last (100, "Language model ready"). So
  the sequence begins with percent 0 and ends with percent 100; it is non-decreasing in
  percent whenever the fractions of the delivered reports are non-decreasing and lie
  between 0 and 1.
\<close>

theorem initLLM_progress_sequence:
  assumes "outcome (initLLM K w (Some cb) engine0) = Inr ()"
  shows "progress_events (effects (initLLM K w (Some cb) engine0))
           = (Num 0, ''Initialising language model...'')
             # map (\<lambda>r. (Math_round (times100 (progress r)), report_text r)) (delivered_reports w)
             @ [(Num 100, ''Language model ready'')]
       \<and> (sorted_wrt number_le (map progress (delivered_reports w))
            \<and> (\<forall>r\<in>set (delivered_reports w).
                  number_le (Num 0) (progress r) \<and> number_le (progress r) (Num 1))
          \<longrightarrow> sorted_wrt number_le
                (map fst (progress_events (effects (initLLM K w (Some cb) engine0)))))"
proof -
  have r: "rescaled = (\<lambda>r. (Math_round (times100 (progress r)), report_text r))"
    by (rule ext) (simp add: rescaled_def)
  show ?thesis
    unfolding initLLM_progress_events [OF assms] r [symmetric]
    using sorted_progress_sequence by blast
qed

lemma restart_failure: "worker_failure restart_script = Some ''worker crashed''"
  by (simp add: worker_failure_def restart_script_def)

lemma restart_outcome:
  "outcome (initLLM demo_constants restart_script (Some Callback) None) = Inr ()"
proof -
  have "engine_ctor restart_script = None" "reload_result restart_script = None"
    by (simp_all add: restart_script_def)
  then show ?thesis
    by (simp add: initLLM_fallback [OF restart_failure])
qed

lemma restart_delivered:
  "delivered_reports restart_script =
     [\<lparr>progress = Num (1 / 2), report_text = ''Loading model''\<rparr>,
      \<lparr>progress = double_0015, report_text = ''Loading model''\<rparr>]"
  by (simp add: delivered_reports_def restart_failure) (simp add: restart_script_def)

lemma restart_progress:
  "progress_events (effects (initLLM demo_constants restart_script (Some Callback) None))
     = [(Num 0, ''Initialising language model...''), (Num 50, ''Loading model''),
        (Num 2, ''Loading model''), (Num 100, ''Language model ready'')]"
  by (simp add: initLLM_progress_events [OF restart_outcome] restart_delivered rescaled_def)

text \<open>
  C5 (as stated, refuted). The worker reports one half and then fails; the in-process
  load reports 0.015 and succeeds. \<open>initLLM\<close> succeeds, the percentages are
  0, 50, 2, 100, which is not non-decreasing, and the last event carries the message
  "Language model ready", not "ready".
\<close>

theorem initLLM_progress_counterexample:
  "outcome (initLLM demo_constants restart_script (Some Callback) None) = Inr ()
   \<and> progress_events (effects (initLLM demo_constants restart_script (Some Callback) None))
       = [(Num 0, ''Initialising language model...''), (Num 50, ''Loading model''),
          (Num 2, ''Loading model''), (Num 100, ''Language model ready'')]
   \<and> \<not> sorted_wrt number_le (map fst (progress_events
         (effects (initLLM demo_constants restart_script (Some Callback) None))))
   \<and> last (progress_events (effects (initLLM demo_constants restart_script (Some Callback) None)))
       \<noteq> (Num 100, ''ready'')"
  by (simp add: restart_outcome restart_progress)

lemma steady_failure: "worker_failure steady_script = None"
  by (simp add: worker_failure_def steady_script_def)

lemma steady_delivered:
  "delivered_reports steady_script =
     [\<lparr>progress = Num (1 / 4), report_text = ''Fetching''\<rparr>,
      \<lparr>progress = Num (1 / 2), report_text = ''Loading model''\<rparr>,
      \<lparr>progress = double_0995, report_text = ''Finishing''\<rparr>,
      \<lparr>progress = Num 1, report_text = ''Done''\<rparr>]"
  by (simp add: delivered_reports_def steady_failure) (simp add: steady_script_def)

theorem initLLM_progress_sequence_witness:
  "outcome (initLLM demo_constants steady_script (Some Callback) None) = Inr ()
   \<and> map progress (delivered_reports steady_script)
       = [Num (1 / 4), Num (1 / 2), double_0995, Num 1]
   \<and> sorted_wrt number_le (map progress (delivered_reports steady_script))
   \<and> progress_events (effects (initLLM demo_constants steady_script (Some Callback) None))
       = [(Num 0, ''Initialising language model...''), (Num 25, ''Fetching''),
          (Num 50, ''Loading model''), (Num 100, ''Finishing''), (Num 100, ''Done''),
          (Num 100, ''Language model ready'')]
   \<and> sorted_wrt number_le (map fst (progress_events
         (effects (initLLM demo_constants steady_script (Some Callback) None))))"
proof -
  have run: "outcome (initLLM demo_constants steady_script (Some Callback) None) = Inr ()"
    by (simp add: initLLM_worker [OF steady_failure])
  have fractions: "map progress (delivered_reports steady_script)
       = [Num (1 / 4), Num (1 / 2), double_0995, Num 1]"
    unfolding steady_delivered by simp
  have mono: "sorted_wrt number_le (map progress (delivered_reports steady_script))
     \<and> (\<forall>r\<in>set (delivered_reports steady_script).
           number_le (Num 0) (progress r) \<and> number_le (progress r) (Num 1))"
    unfolding steady_delivered by (simp add: double_0995_def)
  note seq = initLLM_progress_sequence [OF run]
  from seq have events:
    "progress_events (effects (initLLM demo_constants steady_script (Some Callback) None))
       = [(Num 0, ''Initialising language model...''), (Num 25, ''Fetching''),
          (Num 50, ''Loading model''), (Num 100, ''Finishing''), (Num 100, ''Done''),
          (Num 100, ''Language model ready'')]"
    unfolding steady_delivered by simp
  from seq mono have
    "sorted_wrt number_le (map fst (progress_events
         (effects (initLLM demo_constants steady_script (Some Callback) None))))"
    by blast
  with run fractions mono events show ?thesis by blast
qed

subsection \<open>initLLM: the fallback\<close>

lemma try_worker_attempted:
  "worker_failure w = Some f \<Longrightarrow> worker_ctor w = None \<Longrightarrow>
   snd (try_worker K w onProgress) =
     [NewWorker ''./llm.worker.ts'' ''module'',
      CreateWebWorkerMLCEngine (LLM_MODEL K) engine_config (chat_options K)]
     @ concat (map (initProgressCallback onProgress) (worker_reports w))"
  by (simp add: try_worker_fails)

lemma initLLM_fallback_effects:
  assumes "worker_failure w = Some f"
  shows "\<exists>pre post.
           effects (initLLM K w onProgress engine0)
             = pre @ [ConsoleWarn ''Web Worker failed, falling back to main thread:''
                        (RuntimeFailure f),
                      NewMLCEngine \<lparr>logLevel = ''SILENT''\<rparr>] @ post
         \<and> (worker_ctor w = None \<longrightarrow>
               pre = call_onProgress onProgress (Num 0) ''Initialising language model...''
                     @ [NewWorker ''./llm.worker.ts'' ''module'',
                        CreateWebWorkerMLCEngine (LLM_MODEL K) \<lparr>logLevel = ''SILENT''\<rparr>
                          \<lparr>context_window_size = CONTEXT_WINDOW_SIZE K\<rparr>]
                     @ concat (map (initProgressCallback onProgress) (worker_reports w)))
         \<and> (engine_ctor w = None \<longrightarrow>
               (\<exists>post'.
                  post = Reload (LLM_MODEL K) \<lparr>context_window_size = CONTEXT_WINDOW_SIZE K\<rparr>
                         # concat (map (initProgressCallback onProgress) (reload_reports w))
                         @ post'
                \<and> (reload_result w = None \<longrightarrow>
                      post' = ConsoleLog ''LLM initialised on main thread (fallback)''
                              # call_onProgress onProgress (Num 100) ''Language model ready''
                    \<and> outcome (initLLM K w onProgress engine0) = Inr ()
                    \<and> handle (initLLM K w onProgress engine0)
                        = Some \<lparr>kind = MainThreadEngine,
                                loaded = Some (LLM_MODEL K,
                                   \<lparr>context_window_size = CONTEXT_WINDOW_SIZE K\<rparr>),
                                conversation = []\<rparr>)))"
proof -
  let ?pre = "call_onProgress onProgress (Num 0) ''Initialising language model...''
              @ snd (try_worker K w onProgress)"
  have pre: "worker_ctor w = None \<longrightarrow>
      ?pre = call_onProgress onProgress (Num 0) ''Initialising language model...''
             @ [NewWorker ''./llm.worker.ts'' ''module'',
                CreateWebWorkerMLCEngine (LLM_MODEL K) \<lparr>logLevel = ''SILENT''\<rparr>
                  \<lparr>context_window_size = CONTEXT_WINDOW_SIZE K\<rparr>]
             @ concat (map (initProgressCallback onProgress) (worker_reports w))"
    using assms by (simp add: try_worker_attempted engine_config_def chat_options_def)
  show ?thesis
  proof (cases "engine_ctor w")
    case (Some g)
    have "effects (initLLM K w onProgress engine0)
            = ?pre @ [ConsoleWarn ''Web Worker failed, falling back to main thread:''
                        (RuntimeFailure f),
                      NewMLCEngine \<lparr>logLevel = ''SILENT''\<rparr>] @ []"
      using assms Some by (simp add: initLLM_ctor_fails engine_config_def)
    with pre Some show ?thesis by (intro exI [of _ ?pre] exI [of _ "[]"]) simp
  next
    case None
    note ec = this
    let ?reload = "Reload (LLM_MODEL K) \<lparr>context_window_size = CONTEXT_WINDOW_SIZE K\<rparr>
                   # concat (map (initProgressCallback onProgress) (reload_reports w))"
    show ?thesis
    proof (cases "reload_result w")
      case (Some g)
      have "effects (initLLM K w onProgress engine0)
              = ?pre @ [ConsoleWarn ''Web Worker failed, falling back to main thread:''
                          (RuntimeFailure f),
                        NewMLCEngine \<lparr>logLevel = ''SILENT''\<rparr>] @ (?reload @ [])"
        using assms ec Some
        by (simp add: initLLM_reload_fails engine_config_def chat_options_def)
      with pre Some show ?thesis
        by (intro exI [of _ ?pre] exI [of _ "?reload @ []"]) simp
    next
      case None
      let ?tail = "ConsoleLog ''LLM initialised on main thread (fallback)''
                   # call_onProgress onProgress (Num 100) ''Language model ready''"
      have run: "initLLM K w onProgress engine0 =
         \<lparr>outcome = Inr (),
          handle = Some (unloaded_engine\<lparr>loaded := Some (LLM_MODEL K, chat_options K)\<rparr>),
          effects = ?pre @ [ConsoleWarn ''Web Worker failed, falling back to main thread:''
                          (RuntimeFailure f),
                        NewMLCEngine \<lparr>logLevel = ''SILENT''\<rparr>] @ (?reload @ ?tail)\<rparr>"
        using assms ec None
        by (simp add: initLLM_fallback engine_config_def chat_options_def)
      show ?thesis
        using pre
        by (intro exI [of _ ?pre] exI [of _ "?reload @ ?tail"])
           (simp add: run unloaded_engine_def chat_options_def)
    qed
  qed
qed

text \<open>
  C6. When the worker attempt fails (\<open>new Worker\<close> throws, or
  \<open>CreateWebWorkerMLCEngine\<close> rejects), \<open>initLLM\<close> warns and creates an in-process
  engine with the same configuration. If the worker attempt got as far as engine
  creation, that creation was asked for the configured model with the configured
  context window, its reports going through the adapter. Once the in-process engine is
  constructed, \<open>reload\<close> is asked for the same model with the same context window, its
  reports going through the same adapter: with a progress callback, each report is
  passed on at once as one call of it, with the percentage
  \<open>Math.round(progress * 100)\<close> and the report's text. If that load succeeds, the call ends with the
  log line and the progress event (100, "Language model ready"), it succeeds, and
  \<open>engine\<close> is the in-process engine with the model loaded.
\<close>

theorem initLLM_falls_back:
  assumes "worker_failure w = Some f"
  shows "\<exists>pre post.
           effects (initLLM K w onProgress engine0)
             = pre @ [ConsoleWarn ''Web Worker failed, falling back to main thread:''
                        (RuntimeFailure f),
                      NewMLCEngine \<lparr>logLevel = ''SILENT''\<rparr>] @ post
         \<and> (worker_ctor w = None \<longrightarrow>
               pre = (case onProgress of
                        None \<Rightarrow> []
                      | Some _ \<Rightarrow> [OnProgress (Num 0) ''Initialising language model...''])
                     @ [NewWorker ''./llm.worker.ts'' ''module'',
                        CreateWebWorkerMLCEngine (LLM_MODEL K) \<lparr>logLevel = ''SILENT''\<rparr>
                          \<lparr>context_window_size = CONTEXT_WINDOW_SIZE K\<rparr>]
                     @ concat (map (\<lambda>r. case onProgress of
                                           None \<Rightarrow> []
                                         | Some _ \<Rightarrow>
                                             [OnProgress (Math_round (times100 (progress r)))
                                                (report_text r)])
                                 (worker_reports w)))
         \<and> (engine_ctor w = None \<longrightarrow>
               (\<exists>post'.
                  post = Reload (LLM_MODEL K) \<lparr>context_window_size = CONTEXT_WINDOW_SIZE K\<rparr>
                         # concat (map (\<lambda>r. case onProgress of
                                               None \<Rightarrow> []
                                             | Some _ \<Rightarrow>
                                                 [OnProgress (Math_round (times100 (progress r)))
                                                    (report_text r)])
                                     (reload_reports w))
                         @ post'
                \<and> (reload_result w = None \<longrightarrow>
                      post' = ConsoleLog ''LLM initialised on main thread (fallback)''
                              # (case onProgress of
                                   None \<Rightarrow> []
                                 | Some _ \<Rightarrow> [OnProgress (Num 100) ''Language model ready''])
                    \<and> outcome (initLLM K w onProgress engine0) = Inr ()
                    \<and> handle (initLLM K w onProgress engine0)
                        = Some \<lparr>kind = MainThreadEngine,
                                loaded = Some (LLM_MODEL K,
                                   \<lparr>context_window_size = CONTEXT_WINDOW_SIZE K\<rparr>),
                                conversation = []\<rparr>)))"
  using initLLM_fallback_effects [OF assms, of K onProgress engine0]
  unfolding adapter_events call_onProgress_def .

theorem initLLM_falls_back_witness:
  "worker_failure restart_script = Some ''worker crashed''
   \<and> worker_ctor restart_script = None
   \<and> engine_ctor restart_script = None
   \<and> reload_result restart_script = None
   \<and> outcome (initLLM demo_constants restart_script (Some Callback) None) = Inr ()
   \<and> handle (initLLM demo_constants restart_script (Some Callback) None)
       = Some \<lparr>kind = MainThreadEngine,
               loaded = Some (LLM_MODEL demo_constants,
                  \<lparr>context_window_size = CONTEXT_WINDOW_SIZE demo_constants\<rparr>),
               conversation = []\<rparr>
   \<and> last (effects (initLLM demo_constants restart_script (Some Callback) None))
       = OnProgress (Num 100) ''Language model ready''
   \<and> progress_events (effects (initLLM demo_constants restart_script (Some Callback) None))
       = [(Num 0, ''Initialising language model...''), (Num 50, ''Loading model''),
          (Num 2, ''Loading model''), (Num 100, ''Language model ready'')]"
proof -
  have wc: "worker_ctor restart_script = None"
    and ec: "engine_ctor restart_script = None"
    and rr: "reload_result restart_script = None"
    and wr: "worker_reports restart_script
               = [\<lparr>progress = Num (1 / 2), report_text = ''Loading model''\<rparr>]"
    and lr: "reload_reports restart_script
               = [\<lparr>progress = double_0015, report_text = ''Loading model''\<rparr>]"
    by (simp_all add: restart_script_def)
  note fb = initLLM_falls_back [OF restart_failure, where K = demo_constants
      and onProgress = "Some Callback" and ?engine0.0 = None]
  have ok: "outcome (initLLM demo_constants restart_script (Some Callback) None) = Inr ()"
    using fb ec rr by auto
  have h: "handle (initLLM demo_constants restart_script (Some Callback) None)
       = Some \<lparr>kind = MainThreadEngine,
               loaded = Some (LLM_MODEL demo_constants,
                  \<lparr>context_window_size = CONTEXT_WINDOW_SIZE demo_constants\<rparr>),
               conversation = []\<rparr>"
    using fb ec rr by auto
  have l: "last (effects (initLLM demo_constants restart_script (Some Callback) None))
       = OnProgress (Num 100) ''Language model ready''"
    using fb ec rr by auto
  have p: "progress_events (effects (initLLM demo_constants restart_script (Some Callback) None))
       = [(Num 0, ''Initialising language model...''), (Num 50, ''Loading model''),
          (Num 2, ''Loading model''), (Num 100, ''Language model ready'')]"
    using fb wc ec rr by (auto simp: wr lr progress_events_append)
  from restart_failure wc ec rr ok h l p show ?thesis by (intro conjI)
qed

subsection \<open>initLLM: failure of both paths\<close>

lemma generate_passes_guard:
  "outcome (generate K w systemPrompt context query onToken (Some e)) \<noteq> Inl (Error m)"
  by (cases "create_result w")
     (auto simp: generate_def Let_def split: prod.splits option.splits)

text \<open>
  C9. When the worker attempt fails, the in-process engine is constructed and its load
  fails, \<open>initLLM\<close> rejects with the failure of the load, and \<open>engine\<close> is left holding the
  new engine without a model, whatever it held before the call. A later \<open>generate\<close>
  therefore passes the guard: it does not reject with \<open>Error('LLM not initialised')\<close>,
  and its first effect is the request to that engine.
\<close>

theorem initLLM_failure_keeps_unloaded_engine:
  assumes "worker_failure w = Some f" and "engine_ctor w = None" and "reload_result w = Some g"
  shows "outcome (initLLM K w onProgress engine0) = Inl (RuntimeFailure g)
       \<and> handle (initLLM K w onProgress engine0)
           = Some \<lparr>kind = MainThreadEngine, loaded = None, conversation = []\<rparr>
       \<and> outcome (generate K' w' systemPrompt context query onToken
                    (handle (initLLM K w onProgress engine0)))
           \<noteq> Inl (Error ''LLM not initialised'')
       \<and> (\<exists>t. effects (generate K' w' systemPrompt context query onToken
                         (handle (initLLM K w onProgress engine0)))
                = ChatCompletionsCreate (completion_request K' context query) # t)"
proof -
  have h: "handle (initLLM K w onProgress engine0) = Some unloaded_engine"
    and out: "outcome (initLLM K w onProgress engine0) = Inl (RuntimeFailure g)"
    using assms by (simp_all add: initLLM_reload_fails)
  from generate_effects_ready [of K' w' systemPrompt "context" query onToken unloaded_engine]
  have "\<exists>t. effects (generate K' w' systemPrompt context query onToken (Some unloaded_engine))
                = ChatCompletionsCreate (completion_request K' context query) # t"
    by blast
  with out show ?thesis
    unfolding h by (simp add: generate_passes_guard unloaded_engine_def)
qed

lemma both_fail_failure: "worker_failure both_fail_script = Some ''Worker is not defined''"
  by (simp add: worker_failure_def both_fail_script_def)

theorem initLLM_failure_keeps_unloaded_engine_witness:
  "worker_failure both_fail_script = Some ''Worker is not defined''
   \<and> engine_ctor both_fail_script = None
   \<and> reload_result both_fail_script = Some ''out of memory''
   \<and> outcome (initLLM demo_constants both_fail_script None None)
       = Inl (RuntimeFailure ''out of memory'')
   \<and> handle (initLLM demo_constants both_fail_script None None)
       = Some \<lparr>kind = MainThreadEngine, loaded = None, conversation = []\<rparr>
   \<and> outcome (generate demo_constants rejecting_script [] ''Policy: lunch starts at 12:00.''
               ''When does lunch start?'' None
               (handle (initLLM demo_constants both_fail_script None None)))
       \<noteq> Inl (Error ''LLM not initialised'')"
proof -
  have ec: "engine_ctor both_fail_script = None"
    and rr: "reload_result both_fail_script = Some ''out of memory''"
    by (simp_all add: both_fail_script_def)
  from initLLM_failure_keeps_unloaded_engine [OF both_fail_failure ec rr,
      where K = demo_constants and onProgress = None and ?engine0.0 = None
        and K' = demo_constants and w' = rejecting_script and systemPrompt = "[]"
        and query = "''When does lunch start?''" and onToken = None]
  have "outcome (initLLM demo_constants both_fail_script None None)
       = Inl (RuntimeFailure ''out of memory'')
   \<and> handle (initLLM demo_constants both_fail_script None None)
       = Some \<lparr>kind = MainThreadEngine, loaded = None, conversation = []\<rparr>
   \<and> outcome (generate demo_constants rejecting_script [] ''Policy: lunch starts at 12:00.''
               ''When does lunch start?'' None
               (handle (initLLM demo_constants both_fail_script None None)))
       \<noteq> Inl (Error ''LLM not initialised'')"
    by blast
  with both_fail_failure ec rr show ?thesis by blast
qed

end
